theory Spec2Isabelle
  imports Complex_Main "HOL-Library.Sublist"
begin

section \<open>Values of the dashboard script\<close>

text \<open>
  The script \<^verbatim>\<open>app.py\<close> is one linear pass: it reads a city and a list of layer names,
  fetches JSON from public endpoints, draws widgets, collects digest sentences in the
  list \<^verbatim>\<open>graphs\<close>, and passes their join six times through one summarization pipeline.

  A Python \<^verbatim>\<open>str\<close> is a sequence of Unicode code points, so a string is a list of
  code points here and \<^verbatim>\<open>text[:1024]\<close> is \<open>take 1024\<close> on that list. ASCII literals of
  the source are written \<open>u ''...''\<close>.
\<close>

type_synonym pystr = "nat list"

definition u :: "string \<Rightarrow> pystr" where
  "u s = map of_char s"

text \<open>
  What \<^verbatim>\<open>response.json()\<close> yields. An object keeps its members as a key/value list in
  document order; a lookup takes the first member with the key (the parser yields each
  key once). A float is kept as the rational it denotes; nothing below computes with it
  beyond the division in the earthquake block, whose rounding is not modelled.
\<close>

datatype json =
    JNull
  | JBool bool
  | JInt int
  | JFloat rat
  | JStr pystr
  | JList "json list"
  | JObj "(pystr \<times> json) list"

datatype py_error =
    KeyError
  | IndexError
  | TypeError
  | ValueError
  | OverflowError
  | RequestException
  | JSONDecodeError
  | OtherError

type_synonym 'a result = "py_error + 'a"

definition bind_r :: "'a result \<Rightarrow> ('a \<Rightarrow> 'b result) \<Rightarrow> 'b result" where
  "bind_r m f = (case m of Inl e \<Rightarrow> Inl e | Inr a \<Rightarrow> f a)"

subsection \<open>The operators of Python the script applies to parsed JSON\<close>

fun starts_with :: "pystr \<Rightarrow> pystr \<Rightarrow> bool" where
  "starts_with [] s = True"
| "starts_with (c # cs) [] = False"
| "starts_with (c # cs) (d # ds) = (c = d \<and> starts_with cs ds)"

fun substring_of :: "pystr \<Rightarrow> pystr \<Rightarrow> bool" where
  "substring_of k [] = (k = [])"
| "substring_of k (d # ds) = (starts_with k (d # ds) \<or> substring_of k ds)"

text \<open>\<^verbatim>\<open>key in x\<close> for a string key: membership in a dict's keys, in a list's elements,
  substring test on a string, \<^verbatim>\<open>TypeError\<close> on a value that is not a container.\<close>

fun py_in :: "pystr \<Rightarrow> json \<Rightarrow> bool result" where
  "py_in k (JObj kvs) = Inr (map_of kvs k \<noteq> None)"
| "py_in k (JList xs) = Inr (List.member xs (JStr k))"
| "py_in k (JStr s) = Inr (substring_of k s)"
| "py_in k JNull = Inl TypeError"
| "py_in k (JBool b) = Inl TypeError"
| "py_in k (JInt i) = Inl TypeError"
| "py_in k (JFloat r) = Inl TypeError"

text \<open>\<^verbatim>\<open>x[key]\<close> for a string key.\<close>

fun py_getitem :: "json \<Rightarrow> pystr \<Rightarrow> json result" where
  "py_getitem (JObj kvs) k = (case map_of kvs k of None \<Rightarrow> Inl KeyError | Some v \<Rightarrow> Inr v)"
| "py_getitem (JList xs) k = Inl TypeError"
| "py_getitem (JStr s) k = Inl TypeError"
| "py_getitem JNull k = Inl TypeError"
| "py_getitem (JBool b) k = Inl TypeError"
| "py_getitem (JInt i) k = Inl TypeError"
| "py_getitem (JFloat r) k = Inl TypeError"

text \<open>\<^verbatim>\<open>x[i]\<close> for the literal indices \<^verbatim>\<open>0\<close> and \<^verbatim>\<open>1\<close>. The keys of a parsed object are
  strings, so an integer key is never found.\<close>

fun py_index :: "json \<Rightarrow> nat \<Rightarrow> json result" where
  "py_index (JList xs) i = (if i < length xs then Inr (xs ! i) else Inl IndexError)"
| "py_index (JStr s) i = (if i < length s then Inr (JStr [s ! i]) else Inl IndexError)"
| "py_index (JObj kvs) i = Inl KeyError"
| "py_index JNull i = Inl TypeError"
| "py_index (JBool b) i = Inl TypeError"
| "py_index (JInt n) i = Inl TypeError"
| "py_index (JFloat r) i = Inl TypeError"

fun py_len :: "json \<Rightarrow> nat result" where
  "py_len (JList xs) = Inr (length xs)"
| "py_len (JStr s) = Inr (length s)"
| "py_len (JObj kvs) = Inr (length kvs)"
| "py_len JNull = Inl TypeError"
| "py_len (JBool b) = Inl TypeError"
| "py_len (JInt n) = Inl TypeError"
| "py_len (JFloat r) = Inl TypeError"

text \<open>The elements a \<^verbatim>\<open>for\<close> clause walks through.\<close>

fun py_iter :: "json \<Rightarrow> json list result" where
  "py_iter (JList xs) = Inr xs"
| "py_iter (JStr s) = Inr (map (\<lambda>c. JStr [c]) s)"
| "py_iter (JObj kvs) = Inr (map (\<lambda>kv. JStr (fst kv)) kvs)"
| "py_iter JNull = Inl TypeError"
| "py_iter (JBool b) = Inl TypeError"
| "py_iter (JInt n) = Inl TypeError"
| "py_iter (JFloat r) = Inl TypeError"

text \<open>\<^verbatim>\<open>x[:10]\<close>; a dict rejects a slice as key.\<close>

fun py_slice10 :: "json \<Rightarrow> json result" where
  "py_slice10 (JList xs) = Inr (JList (take 10 xs))"
| "py_slice10 (JStr s) = Inr (JStr (take 10 s))"
| "py_slice10 (JObj kvs) = Inl TypeError"
| "py_slice10 JNull = Inl TypeError"
| "py_slice10 (JBool b) = Inl TypeError"
| "py_slice10 (JInt n) = Inl TypeError"
| "py_slice10 (JFloat r) = Inl TypeError"

text \<open>\<^verbatim>\<open>x / 1000\<close>: true division, defined on numbers (a bool is an int). The quotient
  of an integer is a float; Python raises \<^verbatim>\<open>OverflowError\<close> when it rounds to a value
  beyond the largest double, that is from \<open>2 ^ 1024 - 2 ^ 970\<close> on.\<close>

definition float_overflow :: "rat \<Rightarrow> bool" where
  "float_overflow q = (\<bar>q\<bar> \<ge> 2 ^ 1024 - 2 ^ 970)"

fun py_div1000 :: "json \<Rightarrow> rat result" where
  "py_div1000 (JInt n) =
     (if float_overflow (of_int n / 1000) then Inl OverflowError else Inr (of_int n / 1000))"
| "py_div1000 (JFloat r) = Inr (r / 1000)"
| "py_div1000 (JBool b) = Inr ((if b then 1 else 0) / 1000)"
| "py_div1000 JNull = Inl TypeError"
| "py_div1000 (JStr s) = Inl TypeError"
| "py_div1000 (JList xs) = Inl TypeError"
| "py_div1000 (JObj kvs) = Inl TypeError"

text \<open>\<^verbatim>\<open>label + x\<close> with a string literal on the left.\<close>

fun py_add_str :: "pystr \<Rightarrow> json \<Rightarrow> pystr result" where
  "py_add_str l (JStr s) = Inr (l @ s)"
| "py_add_str l JNull = Inl TypeError"
| "py_add_str l (JBool b) = Inl TypeError"
| "py_add_str l (JInt n) = Inl TypeError"
| "py_add_str l (JFloat r) = Inl TypeError"
| "py_add_str l (JList xs) = Inl TypeError"
| "py_add_str l (JObj kvs) = Inl TypeError"

text \<open>\<^verbatim>\<open>sep.join(xs)\<close> on a list of strings.\<close>

fun py_join :: "pystr \<Rightarrow> pystr list \<Rightarrow> pystr" where
  "py_join sep [] = []"
| "py_join sep [x] = x"
| "py_join sep (x # y # ys) = x @ sep @ py_join sep (y # ys)"

subsection \<open>Number formatting\<close>

fun decimal :: "nat \<Rightarrow> pystr" where
  "decimal n = (if n < 10 then [48 + n] else decimal (n div 10) @ [48 + n mod 10])"

declare decimal.simps [simp del]

text \<open>Digits, least significant first, with a comma after every third one that has a
  successor.\<close>

fun group3 :: "pystr \<Rightarrow> pystr" where
  "group3 (a # b # c # d # ds) = a # b # c # 44 # group3 (d # ds)"
| "group3 ds = ds"

definition int_comma :: "int \<Rightarrow> pystr" where
  "int_comma n = (if n < 0 then [45] else []) @ rev (group3 (rev (decimal (nat \<bar>n\<bar>))))"

definition int_str :: "int \<Rightarrow> pystr" where
  "int_str n = (if n < 0 then [45] else []) @ decimal (nat \<bar>n\<bar>)"

section \<open>Effects\<close>

text \<open>
  What a run does to the outside is kept as a list of events in the order they happen:
  an HTTP GET with its URL, a call of the summarization pipeline with its input text,
  and an element put on the page. A computation yields the events it caused and either
  the exception that stopped it or its value; an exception is caught nowhere in the
  script, so the first one ends the run with the events that came before it.
\<close>

datatype datetime = UtcSeconds rat

record quake_row =
  place :: json
  mag :: json
  time :: datetime
  lat :: json
  lon :: json

datatype widget =
    Title pystr
  | Markdown pystr
  | Header pystr
  | Subheader pystr
  | Info pystr
  | PydeckChart "quake_row list"
  | Metric pystr json
  | BarChart "(json \<times> json) list"
  | AltairChart "json list"

datatype event =
    HttpGet pystr
  | Summarize pystr
  | Shown widget

type_synonym 'a io = "event list \<times> 'a result"

definition return_io :: "'a \<Rightarrow> 'a io" where
  "return_io a = ([], Inr a)"

definition lift_io :: "'a result \<Rightarrow> 'a io" where
  "lift_io r = ([], r)"

definition bind_io :: "'a io \<Rightarrow> ('a \<Rightarrow> 'b io) \<Rightarrow> 'b io" where
  "bind_io m f =
     (case m of
        (t, Inl e) \<Rightarrow> (t, Inl e)
      | (t, Inr a) \<Rightarrow> (case f a of (t', r) \<Rightarrow> (t @ t', r)))"

fun map_r :: "('a \<Rightarrow> 'b result) \<Rightarrow> 'a list \<Rightarrow> 'b list result" where
  "map_r f [] = Inr []"
| "map_r f (x # xs) =
     (case f x of
        Inl e \<Rightarrow> Inl e
      | Inr y \<Rightarrow> (case map_r f xs of Inl e \<Rightarrow> Inl e | Inr ys \<Rightarrow> Inr (y # ys)))"

subsection \<open>The services and libraries the script calls\<close>

text \<open>
  The code of the upstream services, of the summarization model and of the libraries is
  not part of the repository, so a run is relative to their behaviour:
  \<^item> \<open>http_get_json url\<close> is \<^verbatim>\<open>requests.get(url).json()\<close>: the parsed body, or the
    exception of a failed transfer or of a body that is not JSON (the script never
    looks at the status code);
  \<^item> \<open>pipeline\<close> is \<^verbatim>\<open>pipeline("summarization", ...)\<close>: it raises or yields the
    summarizer, a function of its input text;
  \<^item> \<open>utcfromtimestamp\<close>, \<open>float_comma\<close> (\<^verbatim>\<open>f"{x:,}"\<close> on a float), \<open>float_repr\<close> and
    \<open>container_repr\<close> (\<^verbatim>\<open>str\<close> of a float, of a list or dict) and \<open>pd_DataFrame\<close> are
    the library functions of these names;
  \<^item> \<open>st_data w\<close> says whether Streamlit raises when asked to draw the data widget \<open>w\<close>.
\<close>

record dataframe =
  columns :: "(pystr \<times> json list) list"

record env =
  http_get_json :: "pystr \<Rightarrow> json result"
  pipeline :: "(pystr \<Rightarrow> json result) result"
  utcfromtimestamp :: "rat \<Rightarrow> datetime result"
  float_comma :: "rat \<Rightarrow> pystr"
  float_repr :: "rat \<Rightarrow> pystr"
  container_repr :: "json \<Rightarrow> pystr"
  pd_DataFrame :: "json \<Rightarrow> dataframe result"
  st_data :: "widget \<Rightarrow> py_error option"

definition requests_get :: "env \<Rightarrow> pystr \<Rightarrow> json io" where
  "requests_get env url = ([HttpGet url], http_get_json env url)"

text \<open>Text elements (\<^verbatim>\<open>st.title\<close>, \<^verbatim>\<open>st.subheader\<close>, \<^verbatim>\<open>st.info\<close>, ...) take a string and
  are drawn; data widgets may be refused by the library.\<close>

definition st_text :: "widget \<Rightarrow> unit io" where
  "st_text w = ([Shown w], Inr ())"

definition st_widget :: "env \<Rightarrow> widget \<Rightarrow> unit io" where
  "st_widget env w = (case st_data env w of Some e \<Rightarrow> ([], Inl e) | None \<Rightarrow> ([Shown w], Inr ()))"

text \<open>\<^verbatim>\<open>f"{x}"\<close> and \<^verbatim>\<open>f"{x:,}"\<close>.\<close>

fun py_str :: "env \<Rightarrow> json \<Rightarrow> pystr" where
  "py_str env (JStr s) = s"
| "py_str env (JInt n) = int_str n"
| "py_str env JNull = u ''None''"
| "py_str env (JBool b) = (if b then u ''True'' else u ''False'')"
| "py_str env (JFloat r) = float_repr env r"
| "py_str env (JList xs) = container_repr env (JList xs)"
| "py_str env (JObj kvs) = container_repr env (JObj kvs)"

fun format_comma :: "env \<Rightarrow> json \<Rightarrow> pystr result" where
  "format_comma env (JInt n) = Inr (int_comma n)"
| "format_comma env (JBool b) = Inr (int_comma (if b then 1 else 0))"
| "format_comma env (JFloat r) = Inr (float_comma env r)"
| "format_comma env (JStr s) = Inl ValueError"
| "format_comma env JNull = Inl TypeError"
| "format_comma env (JList xs) = Inl TypeError"
| "format_comma env (JObj kvs) = Inl TypeError"

definition df_column :: "dataframe \<Rightarrow> pystr \<Rightarrow> json list result" where
  "df_column df name = (case map_of (columns df) name of None \<Rightarrow> Inl KeyError | Some vs \<Rightarrow> Inr vs)"

section \<open>Data sources\<close>

definition geo_url :: "pystr \<Rightarrow> pystr" where
  "geo_url city = u ''https://geocoding-api.open-meteo.com/v1/search?name='' @ city"

definition forecast_url :: "env \<Rightarrow> json \<Rightarrow> json \<Rightarrow> pystr" where
  "forecast_url env la lo =
     u ''https://api.open-meteo.com/v1/forecast?latitude='' @ py_str env la
       @ u ''&longitude='' @ py_str env lo @ u ''&hourly=temperature_2m''"

definition earthquakes_url :: pystr where
  "earthquakes_url = u ''https://earthquake.usgs.gov/earthquakes/feed/v1.0/summary/all_day.geojson''"

definition covid_url :: pystr where
  "covid_url = u ''https://disease.sh/v3/covid-19/all''"

definition air_quality_url :: "pystr \<Rightarrow> pystr" where
  "air_quality_url city = u ''https://api.openaq.org/v2/latest?city='' @ city"

definition disasters_url :: pystr where
  "disasters_url = u ''https://api.reliefweb.int/v1/disasters?appname=rwint-user-0&profile=full''"

definition news_url :: pystr where
  "news_url = u ''https://api.gdeltproject.org/api/v2/doc/doc?query=climate&mode=artlist&format=json''"

text \<open>\<^verbatim>\<open>get_weather\<close>: Python's \<^verbatim>\<open>None\<close> is \<open>JNull\<close>.\<close>

definition get_weather :: "env \<Rightarrow> pystr \<Rightarrow> json io" where
  "get_weather env city =
     bind_io (requests_get env (geo_url city)) (\<lambda>g.
     bind_io (lift_io (py_in (u ''results'') g)) (\<lambda>has_results.
       if \<not> has_results then return_io JNull
       else
         bind_io (lift_io (bind_r (py_getitem g (u ''results'')) (\<lambda>rs.
                           bind_r (py_index rs 0) (\<lambda>r0. py_getitem r0 (u ''latitude''))))) (\<lambda>la.
         bind_io (lift_io (bind_r (py_getitem g (u ''results'')) (\<lambda>rs.
                           bind_r (py_index rs 0) (\<lambda>r0. py_getitem r0 (u ''longitude''))))) (\<lambda>lo.
         requests_get env (forecast_url env la lo)))))"

definition get_earthquakes :: "env \<Rightarrow> json io" where
  "get_earthquakes env = requests_get env earthquakes_url"

definition get_covid :: "env \<Rightarrow> json io" where
  "get_covid env = requests_get env covid_url"

definition get_air_quality :: "env \<Rightarrow> pystr \<Rightarrow> json io" where
  "get_air_quality env city = requests_get env (air_quality_url city)"

definition get_disasters :: "env \<Rightarrow> json io" where
  "get_disasters env = requests_get env disasters_url"

definition get_news :: "env \<Rightarrow> json io" where
  "get_news env = requests_get env news_url"

section \<open>Graphs\<close>

text \<open>
  Each block of the script is guarded by a membership test on \<^verbatim>\<open>show_layers\<close>; its
  body fetches, draws and appends one sentence to the list \<^verbatim>\<open>graphs\<close>, which is
  passed in and returned. The script has a block for four of the six layer names;
  \<^verbatim>\<open>get_weather\<close> and \<^verbatim>\<open>get_disasters\<close> are defined and called nowhere.
\<close>

definition quake_row_of :: "env \<Rightarrow> json \<Rightarrow> quake_row result" where
  "quake_row_of env f =
     bind_r (bind_r (py_getitem f (u ''properties'')) (\<lambda>p. py_getitem p (u ''place''))) (\<lambda>pl.
     bind_r (bind_r (py_getitem f (u ''properties'')) (\<lambda>p. py_getitem p (u ''mag''))) (\<lambda>m.
     bind_r (bind_r (py_getitem f (u ''properties'')) (\<lambda>p.
             bind_r (py_getitem p (u ''time'')) (\<lambda>ms.
             bind_r (py_div1000 ms) (utcfromtimestamp env)))) (\<lambda>t.
     bind_r (bind_r (py_getitem f (u ''geometry'')) (\<lambda>g.
             bind_r (py_getitem g (u ''coordinates'')) (\<lambda>c. py_index c 1))) (\<lambda>la.
     bind_r (bind_r (py_getitem f (u ''geometry'')) (\<lambda>g.
             bind_r (py_getitem g (u ''coordinates'')) (\<lambda>c. py_index c 0))) (\<lambda>lo.
     Inr \<lparr>place = pl, mag = m, time = t, lat = la, lon = lo\<rparr>)))))"

definition earthquakes_sentence :: pystr where
  "earthquakes_sentence = u ''Earthquake activity shows seismic hotspots.''"

definition earthquakes_body :: "env \<Rightarrow> pystr list \<Rightarrow> pystr list io" where
  "earthquakes_body env graphs =
     bind_io (get_earthquakes env) (\<lambda>eq.
     bind_io (lift_io (bind_r (py_getitem eq (u ''features'')) py_iter)) (\<lambda>fs.
     bind_io (lift_io (map_r (quake_row_of env) fs)) (\<lambda>eq_df.
     bind_io (st_text (Subheader (127755 # u '' Earthquakes (Past 24 Hours)''))) (\<lambda>_.
     bind_io (st_widget env (PydeckChart eq_df)) (\<lambda>_.
     return_io (graphs @ [earthquakes_sentence]))))))"

definition earthquakes_block :: "env \<Rightarrow> pystr list \<Rightarrow> pystr list \<Rightarrow> pystr list io" where
  "earthquakes_block env show_layers graphs =
     (if u ''Earthquakes'' \<in> set show_layers then earthquakes_body env graphs
      else return_io graphs)"

definition covid_body :: "env \<Rightarrow> pystr list \<Rightarrow> pystr list io" where
  "covid_body env graphs =
     bind_io (get_covid env) (\<lambda>covid.
     bind_io (st_text (Subheader (129440 # u '' Global COVID-19 Snapshot''))) (\<lambda>_.
     bind_io (lift_io (py_getitem covid (u ''cases''))) (\<lambda>c.
     bind_io (st_widget env (Metric (u ''Cases'') c)) (\<lambda>_.
     bind_io (lift_io (py_getitem covid (u ''deaths''))) (\<lambda>d.
     bind_io (st_widget env (Metric (u ''Deaths'') d)) (\<lambda>_.
     bind_io (lift_io (bind_r (py_getitem covid (u ''cases'')) (format_comma env))) (\<lambda>cs.
     bind_io (lift_io (bind_r (py_getitem covid (u ''deaths'')) (format_comma env))) (\<lambda>ds.
     return_io (graphs @ [u ''Global COVID-19 cases '' @ cs @ u '', deaths '' @ ds @ u ''.''])))))))))"

definition covid_block :: "env \<Rightarrow> pystr list \<Rightarrow> pystr list \<Rightarrow> pystr list io" where
  "covid_block env show_layers graphs =
     (if u ''COVID-19'' \<in> set show_layers then covid_body env graphs
      else return_io graphs)"

text \<open>The guard \<^verbatim>\<open>"results" in aq and len(aq["results"]) > 0\<close>; \<^verbatim>\<open>and\<close> evaluates its
  right operand only when the left one is true.\<close>

definition air_quality_guard :: "json \<Rightarrow> bool result" where
  "air_quality_guard aq =
     bind_r (py_in (u ''results'') aq) (\<lambda>has_results.
       if has_results
       then bind_r (py_getitem aq (u ''results'')) (\<lambda>rs.
            bind_r (py_len rs) (\<lambda>n. Inr (n > 0)))
       else Inr False)"

definition air_quality_body :: "env \<Rightarrow> pystr \<Rightarrow> pystr list \<Rightarrow> pystr list io" where
  "air_quality_body env city graphs =
     bind_io (get_air_quality env city) (\<lambda>aq.
     bind_io (lift_io (air_quality_guard aq)) (\<lambda>ok.
       if ok then
         bind_io (lift_io (bind_r (py_getitem aq (u ''results'')) (\<lambda>rs.
                           bind_r (py_index rs 0) (\<lambda>r0.
                           bind_r (py_getitem r0 (u ''measurements'')) (pd_DataFrame env))))) (\<lambda>aq_df.
         bind_io (st_text (Subheader ([127787, 65039] @ u '' Air Quality in '' @ city))) (\<lambda>_.
         bind_io (lift_io (bind_r (df_column aq_df (u ''parameter'')) (\<lambda>ps.
                           bind_r (df_column aq_df (u ''value'')) (\<lambda>vs. Inr (zip ps vs))))) (\<lambda>series.
         bind_io (st_widget env (BarChart series)) (\<lambda>_.
         bind_io (lift_io (df_column aq_df (u ''parameter''))) (\<lambda>ps.
         return_io (graphs @ [u ''Air Quality in '' @ city @ u '' shows levels of pollutants: ''
                                @ container_repr env (JList ps) @ u ''.'']))))))
       else return_io graphs))"

definition air_quality_block :: "env \<Rightarrow> pystr \<Rightarrow> pystr list \<Rightarrow> pystr list \<Rightarrow> pystr list io" where
  "air_quality_block env city show_layers graphs =
     (if u ''Air Quality'' \<in> set show_layers then air_quality_body env city graphs
      else return_io graphs)"

definition news_sentence :: pystr where
  "news_sentence = u ''News headlines show climate and geopolitical issues trending.''"

definition news_body :: "env \<Rightarrow> pystr list \<Rightarrow> pystr list io" where
  "news_body env graphs =
     bind_io (get_news env) (\<lambda>news.
     bind_io (lift_io (py_in (u ''articles'') news)) (\<lambda>has_articles.
       if has_articles then
         bind_io (lift_io (bind_r (py_getitem news (u ''articles'')) (\<lambda>as.
                           bind_r (py_slice10 as) (\<lambda>first10.
                           bind_r (py_iter first10) (map_r (\<lambda>a. py_getitem a (u ''title''))))))) (\<lambda>titles.
         bind_io (st_text (Subheader (128240 # u '' Trending News Topics (Sample)''))) (\<lambda>_.
         bind_io (st_widget env (AltairChart titles)) (\<lambda>_.
         return_io (graphs @ [news_sentence]))))
       else return_io graphs))"

definition news_block :: "env \<Rightarrow> pystr list \<Rightarrow> pystr list \<Rightarrow> pystr list io" where
  "news_block env show_layers graphs =
     (if u ''News'' \<in> set show_layers then news_body env graphs
      else return_io graphs)"

text \<open>Lines 65 to 123: \<^verbatim>\<open>graphs = []\<close> and the four blocks in the order of the file.\<close>

definition graphs_section :: "env \<Rightarrow> pystr \<Rightarrow> pystr list \<Rightarrow> pystr list io" where
  "graphs_section env city show_layers =
     bind_io (earthquakes_block env show_layers []) (\<lambda>g1.
     bind_io (covid_block env show_layers g1) (\<lambda>g2.
     bind_io (air_quality_block env city show_layers g2) (\<lambda>g3.
     news_block env show_layers g3)))"

section \<open>Agent summaries\<close>

text \<open>\<^verbatim>\<open>" ".join(graphs) if graphs else "No data selected."\<close>: a list is true when it is
  not empty.\<close>

definition summary_input :: "pystr list \<Rightarrow> pystr" where
  "summary_input graphs = (if graphs \<noteq> [] then py_join (u '' '') graphs else u ''No data selected.'')"

type_synonym summarizer = "pystr \<Rightarrow> json result"

definition call_summarizer :: "summarizer \<Rightarrow> pystr \<Rightarrow> json io" where
  "call_summarizer summ x = ([Summarize x], summ x)"

definition langchain_summary :: "summarizer \<Rightarrow> pystr \<Rightarrow> pystr io" where
  "langchain_summary summ text =
     bind_io (call_summarizer summ (take 1024 text)) (\<lambda>out.
     lift_io (bind_r (py_index out 0) (\<lambda>d.
              bind_r (py_getitem d (u ''summary_text'')) (\<lambda>s.
              py_add_str (u ''LangChain Agent: '') s))))"

definition llamaindex_summary :: "summarizer \<Rightarrow> pystr \<Rightarrow> pystr io" where
  "llamaindex_summary summ text =
     bind_io (call_summarizer summ (take 1024 text)) (\<lambda>out.
     lift_io (bind_r (py_index out 0) (\<lambda>d.
              bind_r (py_getitem d (u ''summary_text'')) (\<lambda>s.
              py_add_str (u ''LlamaIndex Agent: '') s))))"

definition haystack_summary :: "summarizer \<Rightarrow> pystr \<Rightarrow> pystr io" where
  "haystack_summary summ text =
     bind_io (call_summarizer summ (take 1024 text)) (\<lambda>out.
     lift_io (bind_r (py_index out 0) (\<lambda>d.
              bind_r (py_getitem d (u ''summary_text'')) (\<lambda>s.
              py_add_str (u ''Haystack Agent: '') s))))"

definition hf_summary :: "summarizer \<Rightarrow> pystr \<Rightarrow> pystr io" where
  "hf_summary summ text =
     bind_io (call_summarizer summ (take 1024 text)) (\<lambda>out.
     lift_io (bind_r (py_index out 0) (\<lambda>d.
              bind_r (py_getitem d (u ''summary_text'')) (\<lambda>s.
              py_add_str (u ''HuggingFace Agent: '') s))))"

definition autogen_summary :: "summarizer \<Rightarrow> pystr \<Rightarrow> pystr io" where
  "autogen_summary summ text =
     bind_io (call_summarizer summ (take 1024 text)) (\<lambda>out.
     lift_io (bind_r (py_index out 0) (\<lambda>d.
              bind_r (py_getitem d (u ''summary_text'')) (\<lambda>s.
              py_add_str (u ''AutoGen Agent: '') s))))"

definition rasa_summary :: "summarizer \<Rightarrow> pystr \<Rightarrow> pystr io" where
  "rasa_summary summ text =
     bind_io (call_summarizer summ (take 1024 text)) (\<lambda>out.
     lift_io (bind_r (py_index out 0) (\<lambda>d.
              bind_r (py_getitem d (u ''summary_text'')) (\<lambda>s.
              py_add_str (u ''Rasa Agent: '') s))))"

definition agents :: "(summarizer \<Rightarrow> pystr \<Rightarrow> pystr io) list" where
  "agents =
     [langchain_summary, llamaindex_summary, haystack_summary,
      hf_summary, autogen_summary, rasa_summary]"

text \<open>\<^verbatim>\<open>for agent in agents: st.info(agent(summary_input))\<close>\<close>

fun run_agents :: "(summarizer \<Rightarrow> pystr \<Rightarrow> pystr io) list \<Rightarrow> summarizer \<Rightarrow> pystr \<Rightarrow> unit io" where
  "run_agents [] summ text = return_io ()"
| "run_agents (agent # rest) summ text =
     bind_io (agent summ text) (\<lambda>s.
     bind_io (st_text (Info s)) (\<lambda>_.
     run_agents rest summ text))"

definition summaries_section :: "env \<Rightarrow> pystr list \<Rightarrow> unit io" where
  "summaries_section env graphs =
     bind_io (st_text (Header (129302 # u '' Multi-Agent AI Summaries''))) (\<lambda>_.
     bind_io (lift_io (pipeline env)) (\<lambda>summ.
     run_agents agents summ (summary_input graphs)))"

section \<open>The whole script\<close>

text \<open>One run of the script for the sidebar's two inputs. The sidebar and
  \<^verbatim>\<open>set_page_config\<close> draw nothing on the page and are left out.\<close>

definition app :: "env \<Rightarrow> pystr \<Rightarrow> pystr list \<Rightarrow> unit io" where
  "app env city show_layers =
     bind_io (st_text (Title (127757 # u '' Planet-Level Global Digital Twin''))) (\<lambda>_.
     bind_io (st_text (Markdown (u ''Real-time data, visualizations, and AI-generated multi-agent summaries.''))) (\<lambda>_.
     bind_io (graphs_section env city show_layers) (\<lambda>graphs.
     summaries_section env graphs)))"

section \<open>Notions of the specification\<close>

subsection \<open>Reading a trace\<close>

fun http_requests :: "event list \<Rightarrow> pystr list" where
  "http_requests [] = []"
| "http_requests (HttpGet url # es) = url # http_requests es"
| "http_requests (e # es) = http_requests es"

fun summarizer_inputs :: "event list \<Rightarrow> pystr list" where
  "summarizer_inputs [] = []"
| "summarizer_inputs (Summarize x # es) = x # summarizer_inputs es"
| "summarizer_inputs (e # es) = summarizer_inputs es"

fun info_panels :: "event list \<Rightarrow> pystr list" where
  "info_panels [] = []"
| "info_panels (Shown (Info s) # es) = s # info_panels es"
| "info_panels (e # es) = info_panels es"

fun widgets :: "event list \<Rightarrow> widget list" where
  "widgets [] = []"
| "widgets (Shown w # es) = w # widgets es"
| "widgets (e # es) = widgets es"

text \<open>The two elements every run puts at the top of the page, and the header of the
  summaries.\<close>

definition page_head :: "event list" where
  "page_head =
     [Shown (Title (127757 # u '' Planet-Level Global Digital Twin'')),
      Shown (Markdown (u ''Real-time data, visualizations, and AI-generated multi-agent summaries.''))]"

definition summaries_header :: event where
  "summaries_header = Shown (Header (129302 # u '' Multi-Agent AI Summaries''))"

text \<open>The trace without the widgets of the layers: requests, calls of the summarizer and
  the summary panels.\<close>

fun layer_widget :: "event \<Rightarrow> bool" where
  "layer_widget (Shown (Info s)) = False"
| "layer_widget (Shown w) = True"
| "layer_widget e = False"

definition calls_and_panels :: "event list \<Rightarrow> event list" where
  "calls_and_panels t = filter (\<lambda>e. \<not> layer_widget e) t"

subsection \<open>The summarizer facade as the specification words it\<close>

text \<open>
  The specification's facade: one shared summarization operation on the digest cut to the
  maximum length, and six entry points that put a fixed label in front of its result.
  \<open>shared_summary\<close> is that one operation (the call of the pipeline and the reading of
  the summary string out of its answer), \<open>labelled_summary\<close> an entry point with the
  label as data.
\<close>

fun expect_str :: "json \<Rightarrow> pystr result" where
  "expect_str (JStr s) = Inr s"
| "expect_str v = Inl TypeError"

definition shared_summary :: "summarizer \<Rightarrow> pystr \<Rightarrow> pystr io" where
  "shared_summary summ text =
     (case summ (take 1024 text) of
        Inl e \<Rightarrow> ([Summarize (take 1024 text)], Inl e)
      | Inr out \<Rightarrow>
          ([Summarize (take 1024 text)],
           bind_r (py_index out 0) (\<lambda>d. bind_r (py_getitem d (u ''summary_text'')) expect_str)))"

definition labelled_summary :: "pystr \<Rightarrow> summarizer \<Rightarrow> pystr \<Rightarrow> pystr io" where
  "labelled_summary label summ text =
     (case shared_summary summ text of (t, r) \<Rightarrow> (t, map_sum id (\<lambda>s. label @ s) r))"

definition agent_labels :: "pystr list" where
  "agent_labels =
     [u ''LangChain Agent: '', u ''LlamaIndex Agent: '', u ''Haystack Agent: '',
      u ''HuggingFace Agent: '', u ''AutoGen Agent: '', u ''Rasa Agent: '']"

text \<open>Stripping a label of the length of \<open>l\<close> from the outcome of an entry point.\<close>

definition strip_label :: "pystr \<Rightarrow> pystr io \<Rightarrow> pystr io" where
  "strip_label l m = (case m of (t, r) \<Rightarrow> (t, map_sum id (drop (length l)) r))"

subsection \<open>The shell as the specification words it\<close>

text \<open>
  The specification's shell walks through the layers in a canonical order and runs the
  fetcher and renderer of each selected one. \<open>run_layers\<close> runs the bodies of a list of
  layer names in the order of that list.
\<close>

definition canonical_order :: "pystr list" where
  "canonical_order = [u ''Earthquakes'', u ''COVID-19'', u ''Air Quality'', u ''News'']"

definition layer_body :: "env \<Rightarrow> pystr \<Rightarrow> pystr \<Rightarrow> pystr list \<Rightarrow> pystr list io" where
  "layer_body env city name graphs =
     (if name = u ''Earthquakes'' then earthquakes_body env graphs
      else if name = u ''COVID-19'' then covid_body env graphs
      else if name = u ''Air Quality'' then air_quality_body env city graphs
      else if name = u ''News'' then news_body env graphs
      else return_io graphs)"

fun run_layers :: "env \<Rightarrow> pystr \<Rightarrow> pystr list \<Rightarrow> pystr list \<Rightarrow> pystr list io" where
  "run_layers env city [] graphs = return_io graphs"
| "run_layers env city (name # names) graphs =
     bind_io (layer_body env city name graphs) (run_layers env city names)"

text \<open>
  The digest entries of a layer are what its body appends to the empty list, and the
  digest entries of a list of layers are those of each layer, one after the other in
  the order of the list; the first exception ends the collection.
\<close>

definition layer_entries :: "env \<Rightarrow> pystr \<Rightarrow> pystr \<Rightarrow> pystr list result" where
  "layer_entries env city name = snd (layer_body env city name [])"

fun collect_entries :: "env \<Rightarrow> pystr \<Rightarrow> pystr list \<Rightarrow> pystr list result" where
  "collect_entries env city [] = Inr []"
| "collect_entries env city (name # names) =
     (case layer_entries env city name of
        Inl e \<Rightarrow> Inl e
      | Inr es \<Rightarrow>
          (case collect_entries env city names of
             Inl e \<Rightarrow> Inl e
           | Inr rest \<Rightarrow> Inr (es @ rest)))"

text \<open>The URL a layer's fetcher requests.\<close>

definition layer_url :: "pystr \<Rightarrow> pystr \<Rightarrow> pystr" where
  "layer_url city name =
     (if name = u ''Earthquakes'' then earthquakes_url
      else if name = u ''COVID-19'' then covid_url
      else if name = u ''Air Quality'' then air_quality_url city
      else news_url)"

subsection \<open>Failure of a fetch\<close>

text \<open>
  The script has no result type for a fetch. A fetcher signals failure the way
  \<^verbatim>\<open>get_weather\<close> does, by returning \<^verbatim>\<open>None\<close>, or it does not return because an
  exception left it.
\<close>

definition returns_failure :: "json io \<Rightarrow> bool" where
  "returns_failure m = (snd m = Inr JNull)"

definition raises :: "'a io \<Rightarrow> bool" where
  "raises m = (case snd m of Inl e \<Rightarrow> True | Inr a \<Rightarrow> False)"

section \<open>Sample environments\<close>

definition echo_summarizer :: summarizer where
  "echo_summarizer t = Inr (JList [JObj [(u ''summary_text'', JStr t)]])"

definition sample_feed :: "pystr \<Rightarrow> json result" where
  "sample_feed url =
     (if url = earthquakes_url then
        Inr (JObj [(u ''features'',
          JList [JObj [(u ''properties'',
                        JObj [(u ''place'', JStr (u ''Fiji'')), (u ''mag'', JInt 5), (u ''time'', JInt 86400000)]),
                       (u ''geometry'', JObj [(u ''coordinates'', JList [JInt 178, JInt (- 18), JInt 10])])]])])
      else if url = covid_url then
        Inr (JObj [(u ''cases'', JInt 1234567), (u ''deaths'', JInt 10)])
      else if url = news_url then
        Inr (JObj [(u ''articles'', JList [JObj [(u ''title'', JStr (u ''Heat''))]])])
      else if starts_with (u ''https://api.openaq.org/'') url then
        Inr (JObj [(u ''results'', JList [])])
      else if starts_with (u ''https://geocoding-api.open-meteo.com/'') url then
        Inr (JObj [(u ''results'', JList [])])
      else Inl RequestException)"

definition sample_env :: env where
  "sample_env =
     \<lparr>http_get_json = sample_feed,
      pipeline = Inr echo_summarizer,
      utcfromtimestamp = (\<lambda>r. Inr (UtcSeconds r)),
      float_comma = (\<lambda>r. u ''0.0''),
      float_repr = (\<lambda>r. u ''0.0''),
      container_repr = (\<lambda>v. u ''[]''),
      pd_DataFrame = (\<lambda>v. Inr \<lparr>columns = []\<rparr>),
      st_data = (\<lambda>w. None)\<rparr>"

text \<open>The same with every transfer failing, and with a summarizer that raises.\<close>

definition offline_env :: env where
  "offline_env = sample_env\<lparr>http_get_json := (\<lambda>url. Inl RequestException)\<rparr>"

definition mute_env :: env where
  "mute_env = sample_env\<lparr>pipeline := Inr (\<lambda>t. Inl OtherError)\<rparr>"

text \<open>The same with the disease statistics service unreachable and the others up.\<close>

definition covid_down_env :: env where
  "covid_down_env =
     sample_env\<lparr>http_get_json :=
       (\<lambda>url. if url = covid_url then Inl RequestException else sample_feed url)\<rparr>"

text \<open>Every service answers with an empty JSON object, as an error body would be.\<close>

definition sparse_env :: env where
  "sparse_env = sample_env\<lparr>http_get_json := (\<lambda>url. Inr (JObj []))\<rparr>"

section \<open>Laws of the effect monad and of traces\<close>

lemma u_Nil: "u [] = []"
  by (simp add: u_def)

lemma u_Cons: "u (c # cs) = of_char c # u cs"
  by (simp add: u_def)

lemmas u_simps = u_Nil u_Cons

lemma bind_io_Inl [simp]: "bind_io (t, Inl e) f = (t, Inl e)"
  by (simp add: bind_io_def)

lemma bind_io_Inr [simp]: "bind_io (t, Inr a) f = (t @ fst (f a), snd (f a))"
  by (simp add: bind_io_def split: prod.splits)

lemma bind_io_return_left [simp]: "bind_io (return_io a) f = f a"
  by (simp add: return_io_def)

lemma bind_io_return_right [simp]: "bind_io m return_io = m"
  by (cases m; cases "snd m") (auto simp: return_io_def)

lemma fst_bind_io:
  "fst (bind_io m f) = fst m @ (case snd m of Inl e \<Rightarrow> [] | Inr a \<Rightarrow> fst (f a))"
  by (cases m; cases "snd m") auto

lemma snd_bind_io:
  "snd (bind_io m f) = (case snd m of Inl e \<Rightarrow> Inl e | Inr a \<Rightarrow> snd (f a))"
  by (cases m; cases "snd m") auto

lemma http_requests_append [simp]: "http_requests (a @ b) = http_requests a @ http_requests b"
  by (induction a rule: http_requests.induct) simp_all

lemma summarizer_inputs_append [simp]: "summarizer_inputs (a @ b) = summarizer_inputs a @ summarizer_inputs b"
  by (induction a rule: summarizer_inputs.induct) simp_all

lemma info_panels_append [simp]: "info_panels (a @ b) = info_panels a @ info_panels b"
  by (induction a rule: info_panels.induct) simp_all

lemma calls_Nil [simp]: "calls_and_panels [] = []"
  by (simp add: calls_and_panels_def)

lemma calls_append [simp]: "calls_and_panels (a @ b) = calls_and_panels a @ calls_and_panels b"
  by (simp add: calls_and_panels_def)

lemma calls_st_widget [simp]: "(\<And>s. w \<noteq> Info s) \<Longrightarrow> calls_and_panels (fst (st_widget env w)) = []"
  by (cases w) (auto simp: calls_and_panels_def st_widget_def split: option.splits)

lemma calls_st_text [simp]: "(\<And>s. w \<noteq> Info s) \<Longrightarrow> calls_and_panels (fst (st_text w)) = []"
  by (cases w) (auto simp: calls_and_panels_def st_text_def)

lemma calls_lift [simp]: "calls_and_panels (fst (lift_io r)) = []" "calls_and_panels (fst (return_io a)) = []"
  by (simp_all add: lift_io_def return_io_def)

lemma calls_requests_get [simp]: "calls_and_panels (fst (requests_get env url)) = [HttpGet url]"
  by (simp add: calls_and_panels_def requests_get_def)

lemma http_requests_calls: "http_requests (calls_and_panels t) = http_requests t"
  by (induction t rule: http_requests.induct) (simp_all add: calls_and_panels_def)

lemma summarizer_inputs_calls: "summarizer_inputs (calls_and_panels t) = summarizer_inputs t"
  by (induction t rule: summarizer_inputs.induct) (simp_all add: calls_and_panels_def)

lemma info_panels_calls: "info_panels (calls_and_panels t) = info_panels t"
  by (induction t rule: info_panels.induct) (simp_all add: calls_and_panels_def)

lemma calls_earthquakes_body: "calls_and_panels (fst (earthquakes_body env g)) = [HttpGet earthquakes_url]"
  by (simp add: earthquakes_body_def get_earthquakes_def fst_bind_io snd_bind_io split: sum.splits)

lemma calls_covid_body: "calls_and_panels (fst (covid_body env g)) = [HttpGet covid_url]"
  by (simp add: covid_body_def get_covid_def fst_bind_io snd_bind_io split: sum.splits)

lemma calls_air_quality_body: "calls_and_panels (fst (air_quality_body env city g)) = [HttpGet (air_quality_url city)]"
  by (simp add: air_quality_body_def get_air_quality_def fst_bind_io snd_bind_io split: sum.splits)

lemma calls_news_body: "calls_and_panels (fst (news_body env g)) = [HttpGet news_url]"
  by (simp add: news_body_def get_news_def fst_bind_io snd_bind_io split: sum.splits)

lemma layer_names_distinct: "distinct canonical_order"
  by (simp add: canonical_order_def u_simps)

lemma calls_layer_body:
  "name \<in> set canonical_order \<Longrightarrow>
   calls_and_panels (fst (layer_body env city name g)) = [HttpGet (layer_url city name)]"
  by (auto simp: canonical_order_def layer_body_def layer_url_def calls_earthquakes_body
      calls_covid_body calls_air_quality_body calls_news_body u_simps)

lemma calls_run_layers:
  "set names \<subseteq> set canonical_order \<Longrightarrow>
   prefix (calls_and_panels (fst (run_layers env city names g)))
          (map (\<lambda>n. HttpGet (layer_url city n)) names)"
proof (induction names arbitrary: g)
  case Nil
  then show ?case by (simp add: return_io_def)
next
  case (Cons n ns)
  then have n: "n \<in> set canonical_order" and ns: "set ns \<subseteq> set canonical_order" by auto
  show ?case
  proof (cases "snd (layer_body env city n g)")
    case (Inl e)
    then show ?thesis
      by (simp add: fst_bind_io calls_layer_body [OF n])
  next
    case (Inr g')
    then show ?thesis
      using Cons.IH [OF ns, of g']
      by (simp add: fst_bind_io calls_layer_body [OF n])
  qed
qed

lemma run_layers_Nil_fun: "run_layers env city [] = return_io"
  by (rule ext) simp

lemma run_layers_Cons_fun:
  "run_layers env city (n # ns) = (\<lambda>g. bind_io (layer_body env city n g) (run_layers env city ns))"
  by (rule ext) simp

lemma graphs_section_run_layers:
  "graphs_section env city sel
   = run_layers env city (filter (\<lambda>l. l \<in> set sel) canonical_order) []"
  by (simp add: graphs_section_def canonical_order_def earthquakes_block_def covid_block_def
      air_quality_block_def news_block_def layer_body_def u_simps
      run_layers_Nil_fun run_layers_Cons_fun)

section \<open>The summarizer facade\<close>

lemma py_add_str_expect: "py_add_str l v = map_sum id (\<lambda>s. l @ s) (expect_str v)"
  by (cases v) simp_all

lemma bind_r_map_sum:
  "bind_r m (\<lambda>x. map_sum id g (h x)) = map_sum id g (bind_r m h)"
  by (cases m) (simp_all add: bind_r_def)

lemma labelled_summary_unfold:
  "bind_io (call_summarizer summ (take 1024 text)) (\<lambda>out.
     lift_io (bind_r (py_index out 0) (\<lambda>d.
              bind_r (py_getitem d (u ''summary_text'')) (\<lambda>s. py_add_str l s))))
   = labelled_summary l summ text"
proof (cases "summ (take 1024 text)")
  case (Inl e)
  then show ?thesis
    by (simp add: labelled_summary_def shared_summary_def call_summarizer_def)
next
  case (Inr out)
  have "bind_r (py_index out 0) (\<lambda>d. bind_r (py_getitem d (u ''summary_text'')) (py_add_str l))
      = map_sum id (\<lambda>s. l @ s)
          (bind_r (py_index out 0) (\<lambda>d. bind_r (py_getitem d (u ''summary_text'')) expect_str))"
    by (cases "py_index out 0"; cases "py_getitem (projr (py_index out 0)) (u ''summary_text'')")
       (simp_all add: bind_r_def py_add_str_expect)
  with Inr show ?thesis
    by (simp add: labelled_summary_def shared_summary_def call_summarizer_def lift_io_def)
qed

lemma strip_labelled: "strip_label l (labelled_summary l summ text) = shared_summary summ text"
proof -
  obtain t r where tr: "shared_summary summ text = (t, r)" by (cases "shared_summary summ text")
  have "map_sum id (drop (length l)) (map_sum id (\<lambda>s. l @ s) r) = r"
    by (cases r) simp_all
  with tr show ?thesis
    by (simp add: strip_label_def labelled_summary_def)
qed

lemma agent_labels_distinct: "distinct agent_labels"
  by (simp add: agent_labels_def u_simps)


lemma langchain_labelled:
  "langchain_summary summ text = labelled_summary (u ''LangChain Agent: '') summ text"
  unfolding langchain_summary_def by (rule labelled_summary_unfold)

lemma llamaindex_labelled:
  "llamaindex_summary summ text = labelled_summary (u ''LlamaIndex Agent: '') summ text"
  unfolding llamaindex_summary_def by (rule labelled_summary_unfold)

lemma haystack_labelled:
  "haystack_summary summ text = labelled_summary (u ''Haystack Agent: '') summ text"
  unfolding haystack_summary_def by (rule labelled_summary_unfold)

lemma hf_labelled:
  "hf_summary summ text = labelled_summary (u ''HuggingFace Agent: '') summ text"
  unfolding hf_summary_def by (rule labelled_summary_unfold)

lemma autogen_labelled:
  "autogen_summary summ text = labelled_summary (u ''AutoGen Agent: '') summ text"
  unfolding autogen_summary_def by (rule labelled_summary_unfold)

lemma rasa_labelled:
  "rasa_summary summ text = labelled_summary (u ''Rasa Agent: '') summ text"
  unfolding rasa_summary_def by (rule labelled_summary_unfold)

lemmas agent_labelled =
  langchain_labelled llamaindex_labelled haystack_labelled
  hf_labelled autogen_labelled rasa_labelled

lemma agents_labelled: "agents = map labelled_summary agent_labels"
  by (simp add: agents_def agent_labels_def fun_eq_iff agent_labelled)

lemma fst_shared_summary: "fst (shared_summary summ text) = [Summarize (take 1024 text)]"
  by (simp add: shared_summary_def split: sum.splits)

lemma fst_labelled_summary: "fst (labelled_summary l summ text) = [Summarize (take 1024 text)]"
  using fst_shared_summary [of summ "text"]
  by (cases "shared_summary summ text") (simp add: labelled_summary_def)

lemma take_min_length: "take (min (length xs) n) xs = take n xs"
  by (simp add: min_def)

text \<open>
  \<^bold>\<open>C1.\<close> For every summarizer and every input text, each of the six entry points is the
  labelled entry point of the specification for its own label: it yields that label
  followed by the result of the shared summarization call on the text (cut to 1024
  characters), and the exception of that call when it raises. The six labels are
  pairwise different. Hence, on one input, the six outcomes with the label stripped are
  six times the outcome of the shared call.
\<close>

theorem summarizer_facade_refines:
  "langchain_summary summ text = labelled_summary (u ''LangChain Agent: '') summ text
   \<and> llamaindex_summary summ text = labelled_summary (u ''LlamaIndex Agent: '') summ text
   \<and> haystack_summary summ text = labelled_summary (u ''Haystack Agent: '') summ text
   \<and> hf_summary summ text = labelled_summary (u ''HuggingFace Agent: '') summ text
   \<and> autogen_summary summ text = labelled_summary (u ''AutoGen Agent: '') summ text
   \<and> rasa_summary summ text = labelled_summary (u ''Rasa Agent: '') summ text
   \<and> distinct agent_labels
   \<and> map (\<lambda>(l, agent). strip_label l (agent summ text)) (zip agent_labels agents)
       = replicate 6 (shared_summary summ text)"
proof -
  have "map (\<lambda>(l, agent). strip_label l (agent summ text)) (zip agent_labels agents)
       = replicate 6 (shared_summary summ text)"
    unfolding agent_labels_def agents_def
    by (simp only: zip_Cons_Cons zip_Nil list.map prod.case agent_labelled strip_labelled)
       (simp add: numeral_eq_Suc)
  with agent_labelled agent_labels_distinct show ?thesis
    by blast
qed

theorem summarizer_facade_refines_witness:
  "langchain_summary echo_summarizer (u ''Quakes.'')
     = ([Summarize (u ''Quakes.'')], Inr (u ''LangChain Agent: Quakes.''))
   \<and> rasa_summary echo_summarizer (u ''Quakes.'')
     = ([Summarize (u ''Quakes.'')], Inr (u ''Rasa Agent: Quakes.''))"
  using summarizer_facade_refines [of echo_summarizer "u ''Quakes.''"]
  by (simp add: labelled_summary_def shared_summary_def echo_summarizer_def bind_r_def u_simps)

section \<open>Truncation of the digest\<close>

text \<open>
  \<^bold>\<open>C6.\<close> For every text, each of the six entry points calls the summarizer exactly once,
  and the input of that call is the first \<open>min (length text) 1024\<close> characters of the
  text: it has that length, and the text is this input followed by the characters
  from position 1024 on, so that no character within the bound is lost or altered.
\<close>

theorem summarizer_input_is_prefix:
  "map (\<lambda>agent. fst (agent summ text)) agents
     = replicate 6 [Summarize (take (min (length text) 1024) text)]
   \<and> length (take (min (length text) 1024) text) = min (length text) 1024
   \<and> take (min (length text) 1024) text @ drop 1024 text = text
   \<and> prefix (take (min (length text) 1024) text) text"
proof -
  have "map (\<lambda>agent. fst (agent summ text)) agents
     = replicate 6 [Summarize (take (min (length text) 1024) text)]"
    by (simp add: agents_labelled agent_labels_def fst_labelled_summary take_min_length
        numeral_eq_Suc)
  moreover have "prefix (take (min (length text) 1024) text) text"
    by (simp add: take_is_prefix)
  ultimately show ?thesis
    by (simp add: take_min_length)
qed

theorem summarizer_input_is_prefix_witness:
  "map (\<lambda>agent. fst (agent echo_summarizer (replicate 1030 120))) agents
     = replicate 6 [Summarize (replicate 1024 120)]"
  using summarizer_input_is_prefix [of echo_summarizer "replicate 1030 120"]
  by simp

section \<open>The digest aggregator\<close>

text \<open>
  \<^bold>\<open>C7.\<close> On the empty list of digest sentences the aggregator yields the placeholder
  \<^verbatim>\<open>No data selected.\<close>, which is not the empty string; on a list that is not empty it
  yields the sentences joined by one space, so a single sentence comes back unchanged.
\<close>

theorem aggregator_placeholder_or_join:
  "summary_input [] = u ''No data selected.''
   \<and> summary_input [] \<noteq> []
   \<and> (graphs \<noteq> [] \<longrightarrow> summary_input graphs = py_join [32] graphs)
   \<and> summary_input [g] = g
   \<and> summary_input (g # h # graphs) = g @ [32] @ summary_input (h # graphs)"
  by (simp add: summary_input_def u_simps)

theorem aggregator_placeholder_or_join_witness:
  "[u ''Quakes.'', u ''News.''] \<noteq> []
   \<and> summary_input [u ''Quakes.'', u ''News.''] = u ''Quakes. News.''"
  using aggregator_placeholder_or_join [of "[u ''Quakes.'', u ''News.'']"]
  by (simp add: u_simps)

section \<open>The presentation shell\<close>

subsection \<open>Requests of a run\<close>

lemma http_requests_map_HttpGet: "http_requests (map (\<lambda>n. HttpGet (f n)) ns) = map f ns"
  by (induction ns) simp_all

lemma http_requests_mono: "prefix a b \<Longrightarrow> prefix (http_requests a) (http_requests b)"
  by (auto simp: prefix_def)

lemma http_requests_graphs_section:
  "prefix (http_requests (fst (graphs_section env city sel)))
          (map (layer_url city) (filter (\<lambda>l. l \<in> set sel) canonical_order))"
proof -
  have "set (filter (\<lambda>l. l \<in> set sel) canonical_order) \<subseteq> set canonical_order"
    by auto
  from http_requests_mono [OF calls_run_layers [OF this, of env city "[]"]]
  show ?thesis
    by (simp add: graphs_section_run_layers http_requests_calls http_requests_map_HttpGet)
qed

lemma run_agents_returns:
  "shared_summary summ text = (c, Inr s) \<Longrightarrow>
   run_agents (map labelled_summary ls) summ text
     = (concat (map (\<lambda>l. c @ [Shown (Info (l @ s))]) ls), Inr ())"
  by (induction ls) (simp_all add: return_io_def labelled_summary_def st_text_def)

lemma run_agents_raises:
  "shared_summary summ text = (c, Inl e) \<Longrightarrow>
   run_agents (map labelled_summary (l # ls)) summ text = (c, Inl e)"
  by (simp add: labelled_summary_def)

lemma calls_run_agents:
  "http_requests (fst (run_agents (map labelled_summary ls) summ text)) = []"
proof (cases "shared_summary summ text")
  case (Pair c r)
  have c: "c = [Summarize (take 1024 text)]"
    using fst_shared_summary [of summ "text"] Pair by simp
  show ?thesis
  proof (cases r)
    case (Inl e)
    with Pair c show ?thesis
      by (cases ls) (simp_all add: labelled_summary_def return_io_def)
  next
    case (Inr s)
    with Pair c show ?thesis
      by (simp add: run_agents_returns) (induction ls, simp_all)
  qed
qed

lemma http_requests_summaries_section:
  "http_requests (fst (summaries_section env graphs)) = []"
  by (cases "pipeline env")
     (simp_all add: summaries_section_def agents_labelled st_text_def lift_io_def calls_run_agents)

lemma http_requests_app:
  "http_requests (fst (app env city sel)) = http_requests (fst (graphs_section env city sel))"
  by (cases "graphs_section env city sel"; cases "snd (graphs_section env city sel)")
     (simp_all add: app_def st_text_def http_requests_summaries_section)

lemma http_request_iff: "HttpGet url \<in> set t \<longleftrightarrow> url \<in> set (http_requests t)"
  by (induction t rule: http_requests.induct) auto

lemma app_requests_prefix:
  "prefix (http_requests (fst (app env city sel)))
          (map (layer_url city) (filter (\<lambda>l. l \<in> set sel) canonical_order))"
  by (simp add: http_requests_app http_requests_graphs_section)

lemma app_request_selected:
  assumes "HttpGet url \<in> set (fst (app env city sel))"
  shows "\<exists>name \<in> set sel. name \<in> set canonical_order \<and> url = layer_url city name"
proof -
  from assms have "url \<in> set (http_requests (fst (app env city sel)))"
    by (simp add: http_request_iff)
  with set_mono_prefix [OF app_requests_prefix [of env city sel]]
  have "url \<in> set (map (layer_url city) (filter (\<lambda>l. l \<in> set sel) canonical_order))"
    by blast
  then show ?thesis by auto
qed

lemma blocks_depend_on_membership:
  assumes "\<And>l. l \<in> set canonical_order \<Longrightarrow> (l \<in> set sel) = (l \<in> set sel')"
  shows "graphs_section env city sel = graphs_section env city sel'"
proof -
  have "filter (\<lambda>l. l \<in> set sel) canonical_order = filter (\<lambda>l. l \<in> set sel') canonical_order"
    using assms by (intro filter_cong) auto
  then show ?thesis by (simp add: graphs_section_run_layers)
qed

lemma app_depends_on_graphs:
  "graphs_section env city sel = graphs_section env city sel' \<Longrightarrow>
   app env city sel = app env city sel'"
  by (simp add: app_def)

lemma url_foreign:
  "name \<in> set canonical_order \<Longrightarrow>
   layer_url city name \<noteq> geo_url c \<and> layer_url city name \<noteq> forecast_url env la lo
   \<and> layer_url city name \<noteq> disasters_url"
  by (auto simp: canonical_order_def layer_url_def geo_url_def forecast_url_def disasters_url_def
      earthquakes_url_def covid_url_def air_quality_url_def news_url_def u_simps)

subsection \<open>Selection and order\<close>

lemmas run_defs =
  app_def graphs_section_def earthquakes_block_def covid_block_def air_quality_block_def
  news_block_def earthquakes_body_def covid_body_def air_quality_body_def news_body_def
  get_earthquakes_def get_covid_def get_air_quality_def get_news_def requests_get_def
  summaries_section_def st_text_def st_widget_def lift_io_def return_io_def bind_r_def
  air_quality_guard_def

lemmas env_defs = sample_env_def offline_env_def mute_env_def sparse_env_def covid_down_env_def

lemma get_weather_starts: "HttpGet (geo_url c) \<in> set (fst (get_weather env c))"
  by (simp add: get_weather_def requests_get_def fst_bind_io)

lemma foreign_request_absent:
  assumes "\<And>name. name \<in> set canonical_order \<Longrightarrow> layer_url city name \<noteq> url"
  shows "HttpGet url \<notin> set (fst (app env city sel))"
  using app_request_selected [of url env city sel] assms by blast

lemma weather_requests_absent:
  "HttpGet (geo_url c) \<notin> set (fst (app env city sel))"
  "HttpGet (forecast_url env la lo) \<notin> set (fst (app env city sel))"
  "HttpGet disasters_url \<notin> set (fst (app env city sel))"
proof -
  show "HttpGet (geo_url c) \<notin> set (fst (app env city sel))"
    by (rule foreign_request_absent) (simp add: url_foreign)
  show "HttpGet (forecast_url env la lo) \<notin> set (fst (app env city sel))"
    by (rule foreign_request_absent) (simp add: url_foreign)
  show "HttpGet disasters_url \<notin> set (fst (app env city sel))"
    by (rule foreign_request_absent) (simp add: url_foreign)
qed

lemma canonical_not_weather:
  "l \<in> set canonical_order \<Longrightarrow> l \<noteq> u ''Weather'' \<and> l \<noteq> u ''Disasters''"
  by (auto simp: canonical_order_def u_simps)

lemma unrendered_layers_ignored:
  assumes eq: "set sel - {u ''Weather'', u ''Disasters''} = set sel' - {u ''Weather'', u ''Disasters''}"
  shows "graphs_section env city sel = graphs_section env city sel'"
proof (rule blocks_depend_on_membership)
  fix l assume "l \<in> set canonical_order"
  then have l: "l \<notin> {u ''Weather'', u ''Disasters''}"
    using canonical_not_weather [of l] by simp
  from eq have "(l \<in> set sel - {u ''Weather'', u ''Disasters''})
      = (l \<in> set sel' - {u ''Weather'', u ''Disasters''})"
    by (rule arg_cong)
  with l show "(l \<in> set sel) = (l \<in> set sel')"
    by (simp only: Diff_iff simp_thms)
qed

text \<open>
  \<^bold>\<open>C9.\<close> For every selection, the HTTP requests of a run are, in order, a prefix of the
  URLs of the selected layers taken in canonical order; so every request of the run is
  the request of the fetcher of a layer that is in the selection.
\<close>

theorem only_selected_layers_fetched:
  "prefix (http_requests (fst (app env city sel)))
          (map (layer_url city) (filter (\<lambda>l. l \<in> set sel) canonical_order))
   \<and> (\<forall>url. HttpGet url \<in> set (fst (app env city sel)) \<longrightarrow>
         (\<exists>name \<in> set sel. name \<in> set canonical_order \<and> url = layer_url city name))"
  using app_requests_prefix [of env city sel] app_request_selected [of _ env city sel]
  by blast

theorem only_selected_layers_fetched_witness:
  "HttpGet covid_url \<in> set (fst (app offline_env (u ''Delhi'') [u ''COVID-19'']))
   \<and> (\<exists>name \<in> set [u ''COVID-19'']. name \<in> set canonical_order
         \<and> covid_url = layer_url (u ''Delhi'') name)"
proof -
  have "HttpGet covid_url \<in> set (fst (app offline_env (u ''Delhi'') [u ''COVID-19'']))"
    by (simp add: run_defs env_defs u_simps)
  with only_selected_layers_fetched [of offline_env "u ''Delhi''" "[u ''COVID-19'']"]
  show ?thesis by blast
qed

text \<open>
  \<^bold>\<open>C5.\<close> A call of \<^verbatim>\<open>get_weather\<close> requests the geocoding URL and a call of
  \<^verbatim>\<open>get_disasters\<close> the disasters URL. No run requests the geocoding URL of any place,
  a forecast URL or the disasters URL, whatever the selection and the city: the two
  fetchers are never invoked. Two selections that differ only in the names Weather and
  Disasters give the same graphs section (events, digest sentences, exception) and the
  same run, so these two names add no widget, no digest sentence and change no panel.
\<close>

theorem weather_and_disasters_never_run:
  "HttpGet (geo_url c) \<in> set (fst (get_weather env c))
   \<and> fst (get_disasters env) = [HttpGet disasters_url]
   \<and> HttpGet (geo_url c) \<notin> set (fst (app env city sel))
   \<and> HttpGet (forecast_url env la lo) \<notin> set (fst (app env city sel))
   \<and> HttpGet disasters_url \<notin> set (fst (app env city sel))
   \<and> (set sel - {u ''Weather'', u ''Disasters''} = set sel' - {u ''Weather'', u ''Disasters''}
        \<longrightarrow> graphs_section env city sel = graphs_section env city sel'
          \<and> app env city sel = app env city sel')"
proof -
  have "fst (get_disasters env) = [HttpGet disasters_url]"
    by (simp add: get_disasters_def requests_get_def)
  moreover have "graphs_section env city sel = graphs_section env city sel'
      \<and> app env city sel = app env city sel'"
    if "set sel - {u ''Weather'', u ''Disasters''} = set sel' - {u ''Weather'', u ''Disasters''}"
    using unrendered_layers_ignored [OF that, of env city]
      app_depends_on_graphs [of env city sel sel']
    by blast
  ultimately show ?thesis
    using get_weather_starts [of c env] weather_requests_absent
    by blast
qed

theorem weather_and_disasters_never_run_witness:
  "set [u ''Weather'', u ''COVID-19''] - {u ''Weather'', u ''Disasters''}
     = set [u ''COVID-19'', u ''Disasters''] - {u ''Weather'', u ''Disasters''}
   \<and> app offline_env (u ''Delhi'') [u ''Weather'', u ''COVID-19'']
     = app offline_env (u ''Delhi'') [u ''COVID-19'', u ''Disasters'']"
proof -
  have "set [u ''Weather'', u ''COVID-19''] - {u ''Weather'', u ''Disasters''}
     = set [u ''COVID-19'', u ''Disasters''] - {u ''Weather'', u ''Disasters''}"
    by (auto simp: u_simps)
  with weather_and_disasters_never_run
    [of _ offline_env "u ''Delhi''" "[u ''Weather'', u ''COVID-19'']" _ _ "[u ''COVID-19'', u ''Disasters'']"]
  show ?thesis by blast
qed

lemma bind_io_assoc:
  "bind_io (bind_io m f) h = bind_io m (\<lambda>x. bind_io (f x) h)"
  by (cases m; cases "snd m"; cases "f (projr (snd m))") (auto simp: bind_io_def split: sum.splits prod.splits)

lemma bind_io_if:
  "bind_io (if c then a else b) h = (if c then bind_io a h else bind_io b h)"
  by simp

lemma bind_io_append_result:
  "bind_io m (\<lambda>es. return_io (g @ es)) = (fst m, map_sum id (\<lambda>es. g @ es) (snd m))"
  by (cases m; cases "snd m") (auto simp: return_io_def)

lemma earthquakes_body_appends:
  "earthquakes_body env g = bind_io (earthquakes_body env []) (\<lambda>es. return_io (g @ es))"
  by (simp add: earthquakes_body_def bind_io_assoc)

lemma covid_body_appends:
  "covid_body env g = bind_io (covid_body env []) (\<lambda>es. return_io (g @ es))"
  by (simp add: covid_body_def bind_io_assoc)

lemma air_quality_body_appends:
  "air_quality_body env city g = bind_io (air_quality_body env city []) (\<lambda>es. return_io (g @ es))"
  by (simp add: air_quality_body_def bind_io_assoc bind_io_if cong: if_cong)

lemma news_body_appends:
  "news_body env g = bind_io (news_body env []) (\<lambda>es. return_io (g @ es))"
  by (simp add: news_body_def bind_io_assoc bind_io_if cong: if_cong)

lemma layer_body_appends:
  "layer_body env city name g
     = (fst (layer_body env city name []),
        map_sum id (\<lambda>es. g @ es) (layer_entries env city name))"
proof -
  have "layer_body env city name g = bind_io (layer_body env city name []) (\<lambda>es. return_io (g @ es))"
    using earthquakes_body_appends [of env g] covid_body_appends [of env g]
      air_quality_body_appends [of env city g] news_body_appends [of env g]
    by (simp add: layer_body_def)
  then show ?thesis
    by (simp add: bind_io_append_result layer_entries_def)
qed

lemma run_layers_collects:
  "snd (run_layers env city names g) = map_sum id (\<lambda>es. g @ es) (collect_entries env city names)"
proof (induction names arbitrary: g)
  case Nil
  then show ?case by (simp add: return_io_def)
next
  case (Cons n ns)
  show ?case
  proof (cases "layer_entries env city n")
    case (Inl e)
    then show ?thesis
      using layer_body_appends [of env city n g] by simp
  next
    case (Inr es)
    then show ?thesis
      using layer_body_appends [of env city n g] Cons.IH [of "g @ es"]
      by (cases "collect_entries env city ns") simp_all
  qed
qed

lemma graphs_section_collects:
  "snd (graphs_section env city sel)
     = collect_entries env city (filter (\<lambda>l. l \<in> set sel) canonical_order)"
proof -
  have "map_sum id (\<lambda>es. [] @ es) r = r" for r :: "pystr list result"
    by (cases r) simp_all
  then show ?thesis
    by (simp add: graphs_section_run_layers run_layers_collects)
qed

lemma earthquakes_entries:
  "layer_entries env city (u ''Earthquakes'') = Inr es \<Longrightarrow> es = [earthquakes_sentence]"
  by (auto simp: layer_entries_def layer_body_def earthquakes_body_def snd_bind_io return_io_def
      split: sum.splits)

lemma covid_entries:
  "layer_entries env city (u ''COVID-19'') = Inr es \<Longrightarrow>
   \<exists>cs ds. es = [u ''Global COVID-19 cases '' @ cs @ u '', deaths '' @ ds @ u ''.'']"
  by (auto simp: layer_entries_def layer_body_def covid_body_def snd_bind_io return_io_def u_simps
      split: sum.splits)

lemma air_quality_entries:
  "layer_entries env city (u ''Air Quality'') = Inr es \<Longrightarrow>
   es = [] \<or> (\<exists>ps. es = [u ''Air Quality in '' @ city @ u '' shows levels of pollutants: ''
                           @ ps @ u ''.''])"
  by (auto simp: layer_entries_def layer_body_def air_quality_body_def snd_bind_io return_io_def u_simps
      split: sum.splits if_splits)

lemma news_entries:
  "layer_entries env city (u ''News'') = Inr es \<Longrightarrow> es = [] \<or> es = [news_sentence]"
  by (auto simp: layer_entries_def layer_body_def news_body_def snd_bind_io return_io_def u_simps
      split: sum.splits if_splits)
text \<open>
  \<^bold>\<open>C8.\<close> The graphs section is the run of the bodies of the selected layers in the
  canonical order Earthquakes, COVID-19, Air Quality, News, whatever the order of the
  selection. Each body puts its entries at the end of the list it is given, so the
  list of digest sentences of a run is the entries of the selected layers one after
  the other in canonical order: the earthquake sentence, then the sentence with the
  COVID-19 counts, then the sentence on air quality, if any, then the news sentence, if
  any. The digest joins them in this order, one space between two. Hence two selections
  that are equal as sets give the same graphs section, the same digest and the same
  run.
\<close>

theorem digest_in_canonical_order:
  "graphs_section env city sel
     = run_layers env city (filter (\<lambda>l. l \<in> set sel) canonical_order) []
   \<and> layer_body env city name g
       = (fst (layer_body env city name []),
          map_sum id (\<lambda>es. g @ es) (layer_entries env city name))
   \<and> snd (graphs_section env city sel)
       = collect_entries env city (filter (\<lambda>l. l \<in> set sel) canonical_order)
   \<and> (layer_entries env city (u ''Earthquakes'') = Inr es1 \<longrightarrow> es1 = [earthquakes_sentence])
   \<and> (layer_entries env city (u ''COVID-19'') = Inr es2 \<longrightarrow>
        (\<exists>cs ds. es2 = [u ''Global COVID-19 cases '' @ cs @ u '', deaths '' @ ds @ u ''.'']))
   \<and> (layer_entries env city (u ''Air Quality'') = Inr es3 \<longrightarrow>
        es3 = [] \<or> (\<exists>ps. es3 = [u ''Air Quality in '' @ city
                                    @ u '' shows levels of pollutants: '' @ ps @ u ''.'']))
   \<and> (layer_entries env city (u ''News'') = Inr es4 \<longrightarrow> es4 = [] \<or> es4 = [news_sentence])
   \<and> summary_input [g1] = g1
   \<and> summary_input (g1 # g2 # gs) = g1 @ [32] @ summary_input (g2 # gs)
   \<and> (set sel = set sel' \<longrightarrow>
        graphs_section env city sel = graphs_section env city sel'
        \<and> map_sum id summary_input (snd (graphs_section env city sel))
            = map_sum id summary_input (snd (graphs_section env city sel'))
        \<and> app env city sel = app env city sel')"
proof -
  have inv: "graphs_section env city sel = graphs_section env city sel'" if "set sel = set sel'"
    by (rule blocks_depend_on_membership) (simp only: that)
  have i: "set sel = set sel' \<longrightarrow>
        graphs_section env city sel = graphs_section env city sel'
        \<and> map_sum id summary_input (snd (graphs_section env city sel))
            = map_sum id summary_input (snd (graphs_section env city sel'))
        \<and> app env city sel = app env city sel'"
    using inv app_depends_on_graphs [of env city sel sel'] by metis
  have j: "summary_input [g1] = g1"
    "summary_input (g1 # g2 # gs) = g1 @ [32] @ summary_input (g2 # gs)"
    by (simp_all add: summary_input_def u_simps)
  have e: "layer_entries env city (u ''Earthquakes'') = Inr es1 \<longrightarrow> es1 = [earthquakes_sentence]"
    "layer_entries env city (u ''COVID-19'') = Inr es2 \<longrightarrow>
        (\<exists>cs ds. es2 = [u ''Global COVID-19 cases '' @ cs @ u '', deaths '' @ ds @ u ''.''])"
    "layer_entries env city (u ''Air Quality'') = Inr es3 \<longrightarrow>
        es3 = [] \<or> (\<exists>ps. es3 = [u ''Air Quality in '' @ city
                                    @ u '' shows levels of pollutants: '' @ ps @ u ''.''])"
    "layer_entries env city (u ''News'') = Inr es4 \<longrightarrow> es4 = [] \<or> es4 = [news_sentence]"
    using earthquakes_entries [of env city es1] covid_entries [of env city es2]
      air_quality_entries [of env city es3] news_entries [of env city es4]
    by blast+
  show ?thesis
    by (intro conjI)
       (fact graphs_section_run_layers layer_body_appends graphs_section_collects e i j)+
qed

theorem digest_in_canonical_order_witness:
  "set [u ''News'', u ''COVID-19'', u ''Earthquakes''] = set [u ''Earthquakes'', u ''COVID-19'', u ''News'']
   \<and> layer_entries sample_env (u ''Delhi'') (u ''News'') = Inr [news_sentence]
   \<and> layer_entries sample_env (u ''Delhi'') (u ''Air Quality'') = Inr []
   \<and> map_sum id summary_input
        (snd (graphs_section sample_env (u ''Delhi'') [u ''News'', u ''COVID-19'', u ''Earthquakes'']))
       = Inr (u ''Earthquake activity shows seismic hotspots. Global COVID-19 cases 1,234,567, deaths 10. News headlines show climate and geopolitical issues trending.'')"
proof -
  have s: "set [u ''News'', u ''COVID-19'', u ''Earthquakes'']
      = set [u ''Earthquakes'', u ''COVID-19'', u ''News'']"
    by auto
  have c: "int_comma 1234567 = u ''1,234,567''" "int_comma 10 = u ''10''"
    by (simp_all add: int_comma_def decimal.simps u_simps)
  have v: "snd (graphs_section sample_env (u ''Delhi'') [u ''Earthquakes'', u ''COVID-19'', u ''News''])
       = Inr [earthquakes_sentence,
              u ''Global COVID-19 cases 1,234,567, deaths 10.'',
              news_sentence]"
    by (simp add: run_defs env_defs sample_feed_def quake_row_of_def float_overflow_def c
        earthquakes_url_def news_url_def covid_url_def u_simps)
  have n: "layer_entries sample_env (u ''Delhi'') (u ''News'') = Inr [news_sentence]"
    by (simp add: layer_entries_def layer_body_def run_defs env_defs sample_feed_def
        earthquakes_url_def news_url_def covid_url_def u_simps)
  have a: "layer_entries sample_env (u ''Delhi'') (u ''Air Quality'') = Inr []"
    by (simp add: layer_entries_def layer_body_def run_defs env_defs sample_feed_def
        earthquakes_url_def news_url_def covid_url_def air_quality_url_def u_simps)
  note t = digest_in_canonical_order
    [of sample_env "u ''Delhi''" "[u ''News'', u ''COVID-19'', u ''Earthquakes'']" _ _ _ _ "[]"
        "[news_sentence]" _ _ _ "[u ''Earthquakes'', u ''COVID-19'', u ''News'']"]
  from s t have "map_sum id summary_input
        (snd (graphs_section sample_env (u ''Delhi'') [u ''News'', u ''COVID-19'', u ''Earthquakes'']))
      = map_sum id summary_input
        (snd (graphs_section sample_env (u ''Delhi'') [u ''Earthquakes'', u ''COVID-19'', u ''News'']))"
    by blast
  also have "\<dots> = Inr (u ''Earthquake activity shows seismic hotspots. Global COVID-19 cases 1,234,567, deaths 10. News headlines show climate and geopolitical issues trending.'')"
    by (simp only: v) (simp add: summary_input_def earthquakes_sentence_def news_sentence_def u_simps)
  finally show ?thesis
    using s n a by (simp only: simp_thms)
qed

section \<open>Failures\<close>

subsection \<open>What a block does with a fetch that fails\<close>

lemma fetch_raises:
  assumes "name \<in> set canonical_order" "http_get_json env (layer_url city name) = Inl e"
  shows "layer_body env city name g = ([HttpGet (layer_url city name)], Inl e)"
  using assms
  by (auto simp: canonical_order_def layer_body_def layer_url_def earthquakes_body_def
      covid_body_def air_quality_body_def news_body_def get_earthquakes_def get_covid_def
      get_air_quality_def get_news_def requests_get_def u_simps)

lemma run_layers_raises:
  "layer_body env city name g = (t, Inl e) \<Longrightarrow> run_layers env city (name # rest) g = (t, Inl e)"
  by simp

lemma run_layers_continues:
  "layer_body env city name g = (t, Inr g') \<Longrightarrow>
   run_layers env city (name # rest) g
     = (t @ fst (run_layers env city rest g'), snd (run_layers env city rest g'))"
  by simp

lemma app_raises:
  "graphs_section env city sel = (t, Inl e) \<Longrightarrow> app env city sel = (page_head @ t, Inl e)"
  by (simp add: app_def st_text_def page_head_def)

lemma air_quality_guard_empty:
  "map_of kvs (u ''results'') = None \<or> map_of kvs (u ''results'') = Some (JList []) \<Longrightarrow>
   air_quality_guard (JObj kvs) = Inr False"
  by (auto simp: air_quality_guard_def bind_r_def)

lemma air_quality_body_skip:
  assumes "http_get_json env (air_quality_url city) = Inr aq" "air_quality_guard aq = Inr False"
  shows "air_quality_body env city g = ([HttpGet (air_quality_url city)], Inr g)"
  using assms
  by (simp add: air_quality_body_def get_air_quality_def requests_get_def lift_io_def return_io_def)

lemma news_body_skip:
  assumes "http_get_json env news_url = Inr (JObj kvs)" "map_of kvs (u ''articles'') = None"
  shows "news_body env g = ([HttpGet news_url], Inr g)"
  using assms
  by (simp add: news_body_def get_news_def requests_get_def lift_io_def return_io_def)

text \<open>The COVID-19 block has no guard: an object without the \<^verbatim>\<open>cases\<close> member ends the
  run with a \<^verbatim>\<open>KeyError\<close> after the subheader is drawn.\<close>

lemma covid_body_missing_field:
  assumes "http_get_json env covid_url = Inr (JObj kvs)" "map_of kvs (u ''cases'') = None"
  shows "covid_body env g
    = ([HttpGet covid_url, Shown (Subheader (129440 # u '' Global COVID-19 Snapshot''))],
       Inl KeyError)"
  using assms
  by (simp add: covid_body_def get_covid_def requests_get_def st_text_def lift_io_def)

lemma layer_body_air_quality: "layer_body env city (u ''Air Quality'') g = air_quality_body env city g"
  by (simp add: layer_body_def u_simps)

lemma layer_body_news: "layer_body env city (u ''News'') g = news_body env g"
  by (simp add: layer_body_def u_simps)

text \<open>
  \<^bold>\<open>C2\<close>, as amended. An exception raised by the fetch of a layer (a failed transfer, a
  body that is not JSON) is caught nowhere: the block ends with it after the request,
  no later block runs, and the run ends with it before the summaries. A payload that
  is an object without the expected list is skipped by the Air Quality block (no
  \<^verbatim>\<open>results\<close> member or an empty list) and by the News block (no \<^verbatim>\<open>articles\<close> member):
  the block makes its request, draws nothing, leaves the digest as it is, and the
  blocks after it run.
\<close>

theorem fetch_failure_by_layer:
  "(name \<in> set canonical_order \<and> http_get_json env (layer_url city name) = Inl e \<longrightarrow>
      layer_body env city name g = ([HttpGet (layer_url city name)], Inl e)
      \<and> run_layers env city (name # rest) g = ([HttpGet (layer_url city name)], Inl e))
   \<and> (graphs_section env city sel = (t, Inl e) \<longrightarrow> app env city sel = (page_head @ t, Inl e))
   \<and> (http_get_json env (air_quality_url city) = Inr (JObj kvs)
        \<and> (map_of kvs (u ''results'') = None \<or> map_of kvs (u ''results'') = Some (JList [])) \<longrightarrow>
      air_quality_body env city g = ([HttpGet (air_quality_url city)], Inr g)
      \<and> run_layers env city (u ''Air Quality'' # rest) g
          = (HttpGet (air_quality_url city) # fst (run_layers env city rest g),
             snd (run_layers env city rest g)))
   \<and> (http_get_json env news_url = Inr (JObj kvs') \<and> map_of kvs' (u ''articles'') = None \<longrightarrow>
      news_body env g = ([HttpGet news_url], Inr g)
      \<and> run_layers env city (u ''News'' # rest) g
          = (HttpGet news_url # fst (run_layers env city rest g),
             snd (run_layers env city rest g)))
   \<and> graphs_section env city sel
       = run_layers env city (filter (\<lambda>l. l \<in> set sel) canonical_order) []"
proof -
  have a: "layer_body env city name g = ([HttpGet (layer_url city name)], Inl e)
      \<and> run_layers env city (name # rest) g = ([HttpGet (layer_url city name)], Inl e)"
    if "name \<in> set canonical_order" "http_get_json env (layer_url city name) = Inl e"
    using fetch_raises [OF that, of g] by (simp add: run_layers_raises)
  have b: "air_quality_body env city g = ([HttpGet (air_quality_url city)], Inr g)
      \<and> run_layers env city (u ''Air Quality'' # rest) g
          = (HttpGet (air_quality_url city) # fst (run_layers env city rest g),
             snd (run_layers env city rest g))"
    if "http_get_json env (air_quality_url city) = Inr (JObj kvs)"
      "map_of kvs (u ''results'') = None \<or> map_of kvs (u ''results'') = Some (JList [])"
    using air_quality_body_skip [OF that(1) air_quality_guard_empty [OF that(2)], of g]
    by (simp add: layer_body_air_quality)
  have c: "news_body env g = ([HttpGet news_url], Inr g)
      \<and> run_layers env city (u ''News'' # rest) g
          = (HttpGet news_url # fst (run_layers env city rest g),
             snd (run_layers env city rest g))"
    if "http_get_json env news_url = Inr (JObj kvs')" "map_of kvs' (u ''articles'') = None"
    using news_body_skip [OF that, of g] by (simp add: layer_body_news)
  from a b c app_raises [of env city sel t e] graphs_section_run_layers [of env city sel]
  show ?thesis by blast
qed

theorem fetch_failure_by_layer_witness:
  "layer_body offline_env (u ''Delhi'') (u ''COVID-19'') [] = ([HttpGet covid_url], Inl RequestException)
   \<and> app offline_env (u ''Delhi'') [u ''News'', u ''COVID-19'']
       = (page_head @ [HttpGet covid_url], Inl RequestException)
   \<and> run_layers sparse_env (u ''Delhi'') [u ''Air Quality'', u ''News''] []
       = ([HttpGet (air_quality_url (u ''Delhi'')), HttpGet news_url], Inr [])"
proof -
  have c: "u ''COVID-19'' \<in> set canonical_order"
    by (simp add: canonical_order_def)
  have f: "http_get_json offline_env url = Inl RequestException" for url
    by (simp add: env_defs)
  have l: "layer_url (u ''Delhi'') (u ''COVID-19'') = covid_url"
    by (simp add: layer_url_def u_simps)
  have sel: "filter (\<lambda>l. l \<in> set [u ''News'', u ''COVID-19'']) canonical_order = [u ''COVID-19'', u ''News'']"
    by (simp add: canonical_order_def u_simps)
  have s: "http_get_json sparse_env url = Inr (JObj [])" for url
    by (simp add: env_defs)
  note off = fetch_failure_by_layer
    [of "u ''COVID-19''" offline_env "u ''Delhi''" RequestException "[]" "[u ''News'']"
        "[u ''News'', u ''COVID-19'']" "[HttpGet covid_url]"]
  from off c f l have 1: "layer_body offline_env (u ''Delhi'') (u ''COVID-19'') [] = ([HttpGet covid_url], Inl RequestException)"
    and 2: "run_layers offline_env (u ''Delhi'') [u ''COVID-19'', u ''News''] [] = ([HttpGet covid_url], Inl RequestException)"
    by simp_all
  from off have "graphs_section offline_env (u ''Delhi'') [u ''News'', u ''COVID-19'']
      = run_layers offline_env (u ''Delhi'') [u ''COVID-19'', u ''News''] []"
    by (simp only: sel)
  with 2 off have 3: "app offline_env (u ''Delhi'') [u ''News'', u ''COVID-19'']
       = (page_head @ [HttpGet covid_url], Inl RequestException)"
    by simp
  have n: "run_layers sparse_env (u ''Delhi'') [u ''News''] [] = ([HttpGet news_url], Inr [])"
    using fetch_failure_by_layer [of _ sparse_env "u ''Delhi''" _ "[]" "[]" _ _ _ "[]"] s
    by (simp add: return_io_def)
  have 4: "run_layers sparse_env (u ''Delhi'') [u ''Air Quality'', u ''News''] []
       = ([HttpGet (air_quality_url (u ''Delhi'')), HttpGet news_url], Inr [])"
    using fetch_failure_by_layer [of _ sparse_env "u ''Delhi''" _ "[]" "[u ''News'']" _ _ "[]"] s n
    by simp
  from 1 3 4 show ?thesis by simp
qed

theorem fetch_failure_counterexample:
  "u ''News'' \<in> set [u ''COVID-19'', u ''News'']
   \<and> news_body covid_down_env []
       = ([HttpGet news_url,
           Shown (Subheader (128240 # u '' Trending News Topics (Sample)'')),
           Shown (AltairChart [JStr (u ''Heat'')])],
          Inr [news_sentence])
   \<and> http_requests (fst (app covid_down_env (u ''Delhi'') [u ''COVID-19'', u ''News''])) = [covid_url]
   \<and> widgets (fst (app covid_down_env (u ''Delhi'') [u ''COVID-19'', u ''News''])) = widgets page_head
   \<and> snd (app covid_down_env (u ''Delhi'') [u ''COVID-19'', u ''News'']) = Inl RequestException"
proof -
  have n: "sample_feed news_url
      = Inr (JObj [(u ''articles'', JList [JObj [(u ''title'', JStr (u ''Heat''))]])])"
    by (simp add: sample_feed_def news_url_def earthquakes_url_def covid_url_def u_simps)
  have c: "news_url \<noteq> covid_url"
    by (simp add: news_url_def covid_url_def u_simps)
  have "news_body covid_down_env []
       = ([HttpGet news_url,
           Shown (Subheader (128240 # u '' Trending News Topics (Sample)'')),
           Shown (AltairChart [JStr (u ''Heat'')])],
          Inr [news_sentence])"
    by (simp add: news_body_def get_news_def requests_get_def env_defs n c st_text_def
        st_widget_def lift_io_def return_io_def bind_r_def)
  moreover have "app covid_down_env (u ''Delhi'') [u ''COVID-19'', u ''News'']
      = (page_head @ [HttpGet covid_url], Inl RequestException)"
    by (simp add: app_def graphs_section_def earthquakes_block_def covid_block_def covid_body_def
        get_covid_def requests_get_def env_defs st_text_def return_io_def page_head_def u_simps)
  ultimately show ?thesis
    by (simp add: page_head_def)
qed

subsection \<open>An air-quality answer without stations\<close>

text \<open>
  \<^bold>\<open>C3\<close>, as amended. When the air-quality answer is an object whose results list is
  empty, \<^verbatim>\<open>get_air_quality\<close> returns that answer as it is; the guard of the block is
  then false, and the block, having made its request, draws no widget and leaves the
  list of digest sentences as it is.
\<close>

theorem empty_air_quality_skipped_by_guard:
  "http_get_json env (air_quality_url city) = Inr (JObj kvs)
   \<and> map_of kvs (u ''results'') = Some (JList []) \<longrightarrow>
     get_air_quality env city = ([HttpGet (air_quality_url city)], Inr (JObj kvs))
     \<and> air_quality_guard (JObj kvs) = Inr False
     \<and> air_quality_body env city g = ([HttpGet (air_quality_url city)], Inr g)
     \<and> (u ''Air Quality'' \<in> set sel \<longrightarrow>
          air_quality_block env city sel g = ([HttpGet (air_quality_url city)], Inr g))"
proof (intro impI, elim conjE)
  assume r: "http_get_json env (air_quality_url city) = Inr (JObj kvs)"
    and e: "map_of kvs (u ''results'') = Some (JList [])"
  from e have g: "air_quality_guard (JObj kvs) = Inr False"
    by (simp add: air_quality_guard_empty)
  from r have "get_air_quality env city = ([HttpGet (air_quality_url city)], Inr (JObj kvs))"
    by (simp add: get_air_quality_def requests_get_def)
  with g air_quality_body_skip [OF r g, of g]
  show "get_air_quality env city = ([HttpGet (air_quality_url city)], Inr (JObj kvs))
     \<and> air_quality_guard (JObj kvs) = Inr False
     \<and> air_quality_body env city g = ([HttpGet (air_quality_url city)], Inr g)
     \<and> (u ''Air Quality'' \<in> set sel \<longrightarrow>
          air_quality_block env city sel g = ([HttpGet (air_quality_url city)], Inr g))"
    by (simp add: air_quality_block_def)
qed

lemma sample_feed_air_quality:
  "sample_feed (air_quality_url city) = Inr (JObj [(u ''results'', JList [])])"
  by (simp add: sample_feed_def air_quality_url_def earthquakes_url_def covid_url_def
      news_url_def u_simps)

theorem empty_air_quality_skipped_by_guard_witness:
  "http_get_json sample_env (air_quality_url (u ''Delhi'')) = Inr (JObj [(u ''results'', JList [])])
   \<and> map_of [(u ''results'', JList [])] (u ''results'') = Some (JList [])
   \<and> u ''Air Quality'' \<in> set [u ''Air Quality'']
   \<and> air_quality_block sample_env (u ''Delhi'') [u ''Air Quality''] [earthquakes_sentence]
       = ([HttpGet (air_quality_url (u ''Delhi''))], Inr [earthquakes_sentence])"
proof -
  have "http_get_json sample_env (air_quality_url (u ''Delhi'')) = Inr (JObj [(u ''results'', JList [])])"
    by (simp add: sample_env_def sample_feed_air_quality)
  with empty_air_quality_skipped_by_guard
    [of sample_env "u ''Delhi''" "[(u ''results'', JList [])]" "[earthquakes_sentence]" "[u ''Air Quality'']"]
  show ?thesis by simp
qed

theorem air_quality_fetcher_counterexample:
  "get_air_quality sample_env (u ''Delhi'')
     = ([HttpGet (air_quality_url (u ''Delhi''))], Inr (JObj [(u ''results'', JList [])]))
   \<and> \<not> returns_failure (get_air_quality sample_env (u ''Delhi''))
   \<and> \<not> raises (get_air_quality sample_env (u ''Delhi''))"
  by (simp add: get_air_quality_def requests_get_def sample_env_def sample_feed_air_quality
      returns_failure_def raises_def)

subsection \<open>A geocoding answer without results\<close>





section \<open>The six summary panels\<close>

lemma summarizer_inputs_requests: "summarizer_inputs (map (\<lambda>n. HttpGet (f n)) ns) = []"
  by (induction ns) simp_all

lemma info_panels_requests: "info_panels (map (\<lambda>n. HttpGet (f n)) ns) = []"
  by (induction ns) simp_all

lemma graphs_section_no_summaries:
  "summarizer_inputs (fst (graphs_section env city sel)) = []"
  "info_panels (fst (graphs_section env city sel)) = []"
proof -
  have "set (filter (\<lambda>l. l \<in> set sel) canonical_order) \<subseteq> set canonical_order"
    by auto
  from calls_run_layers [OF this, of env city "[]"]
  obtain rest where r: "map (\<lambda>n. HttpGet (layer_url city n)) (filter (\<lambda>l. l \<in> set sel) canonical_order)
      = calls_and_panels (fst (graphs_section env city sel)) @ rest"
    by (auto simp: prefix_def graphs_section_run_layers)
  have "summarizer_inputs (calls_and_panels (fst (graphs_section env city sel)) @ rest) = []"
    unfolding r [symmetric] by (rule summarizer_inputs_requests)
  then show "summarizer_inputs (fst (graphs_section env city sel)) = []"
    by (simp add: summarizer_inputs_calls)
  have "info_panels (calls_and_panels (fst (graphs_section env city sel)) @ rest) = []"
    unfolding r [symmetric] by (rule info_panels_requests)
  then show "info_panels (fst (graphs_section env city sel)) = []"
    by (simp add: info_panels_calls)
qed

lemma summaries_section_returns:
  assumes "pipeline env = Inr summ" "shared_summary summ (summary_input graphs) = (c, Inr s)"
  shows "summaries_section env graphs
    = (summaries_header #
         concat (map (\<lambda>l. [Summarize (take 1024 (summary_input graphs)), Shown (Info (l @ s))])
                     agent_labels),
       Inr ())"
proof -
  have c: "c = [Summarize (take 1024 (summary_input graphs))]"
    using fst_shared_summary [of summ "summary_input graphs"] assms(2) by simp
  show ?thesis
    using run_agents_returns [OF assms(2), of agent_labels]
    by (simp add: summaries_section_def summaries_header_def st_text_def lift_io_def assms(1)
        agents_labelled c)
qed

lemma summarizer_inputs_panels:
  "summarizer_inputs (concat (map (\<lambda>l. [Summarize x, Shown (Info (f l))]) ls)) = replicate (length ls) x"
  "info_panels (concat (map (\<lambda>l. [Summarize x, Shown (Info (f l))]) ls)) = map f ls"
  by (induction ls) simp_all

lemma length_agent_labels: "length agent_labels = 6"
  by (simp add: agent_labels_def)

text \<open>
  \<^bold>\<open>C10\<close>, as amended. In every run in which no exception is raised (the graphs section
  completes, the pipeline is built, and the summarizer returns for the digest a list
  whose first element has a string \<^verbatim>\<open>summary_text\<close>), whatever the selection, the run
  consists of the page head, the events of the graphs section, the header of the
  summaries, and then for each of the six labels in the order LangChain, LlamaIndex,
  Haystack, HuggingFace, AutoGen, Rasa one call of the summarizer on the digest cut to
  1024 characters followed by one panel with the label and the summary. So the
  summarizer is called exactly six times and six panels are shown.
\<close>

theorem six_summaries_when_nothing_raises:
  "graphs_section env city sel = (t, Inr graphs) \<and> pipeline env = Inr summ
   \<and> shared_summary summ (summary_input graphs) = (c, Inr s) \<longrightarrow>
     app env city sel
       = (page_head @ t @ summaries_header #
            concat (map (\<lambda>l. [Summarize (take 1024 (summary_input graphs)), Shown (Info (l @ s))])
                        agent_labels),
          Inr ())
     \<and> summarizer_inputs (fst (app env city sel)) = replicate 6 (take 1024 (summary_input graphs))
     \<and> info_panels (fst (app env city sel)) = map (\<lambda>l. l @ s) agent_labels"
proof (intro impI, elim conjE)
  assume g: "graphs_section env city sel = (t, Inr graphs)"
    and p: "pipeline env = Inr summ"
    and s: "shared_summary summ (summary_input graphs) = (c, Inr s)"
  have a: "app env city sel
       = (page_head @ t @ summaries_header #
            concat (map (\<lambda>l. [Summarize (take 1024 (summary_input graphs)), Shown (Info (l @ s))])
                        agent_labels),
          Inr ())"
    by (simp add: app_def st_text_def page_head_def g summaries_section_returns [OF p s])
  from graphs_section_no_summaries [of env city sel] g
  have t: "summarizer_inputs t = []" "info_panels t = []"
    by simp_all
  have h: "summarizer_inputs page_head = []" "info_panels page_head = []"
    "summarizer_inputs [summaries_header] = []" "info_panels [summaries_header] = []"
    by (simp_all add: page_head_def summaries_header_def)
  have "fst (app env city sel) = page_head @ t @ [summaries_header] @
            concat (map (\<lambda>l. [Summarize (take 1024 (summary_input graphs)), Shown (Info (l @ s))])
                        agent_labels)"
    by (simp add: a)
  then have "summarizer_inputs (fst (app env city sel)) = replicate 6 (take 1024 (summary_input graphs))"
    and "info_panels (fst (app env city sel)) = map (\<lambda>l. l @ s) agent_labels"
    by (simp_all only: summarizer_inputs_append info_panels_append t h summarizer_inputs_panels
        length_agent_labels append_Nil)
  with a show "app env city sel
       = (page_head @ t @ summaries_header #
            concat (map (\<lambda>l. [Summarize (take 1024 (summary_input graphs)), Shown (Info (l @ s))])
                        agent_labels),
          Inr ())
     \<and> summarizer_inputs (fst (app env city sel)) = replicate 6 (take 1024 (summary_input graphs))
     \<and> info_panels (fst (app env city sel)) = map (\<lambda>l. l @ s) agent_labels"
    by (simp only: simp_thms)
qed

theorem six_summaries_when_nothing_raises_witness:
  "graphs_section sample_env (u ''Delhi'') [] = ([], Inr [])
   \<and> pipeline sample_env = Inr echo_summarizer
   \<and> shared_summary echo_summarizer (summary_input [])
       = ([Summarize (u ''No data selected.'')], Inr (u ''No data selected.''))
   \<and> summarizer_inputs (fst (app sample_env (u ''Delhi'') [])) = replicate 6 (u ''No data selected.'')
   \<and> info_panels (fst (app sample_env (u ''Delhi'') []))
       = map (\<lambda>l. l @ u ''No data selected.'') agent_labels"
proof -
  have g: "graphs_section sample_env (u ''Delhi'') [] = ([], Inr [])"
    by (simp add: graphs_section_def earthquakes_block_def covid_block_def air_quality_block_def
        news_block_def return_io_def)
  have p: "pipeline sample_env = Inr echo_summarizer"
    by (simp add: sample_env_def)
  have i: "take 1024 (summary_input []) = u ''No data selected.''"
    by (simp add: summary_input_def u_simps)
  have s: "shared_summary echo_summarizer (summary_input [])
       = ([Summarize (u ''No data selected.'')], Inr (u ''No data selected.''))"
    by (simp add: shared_summary_def i echo_summarizer_def bind_r_def)
  from six_summaries_when_nothing_raises
    [of sample_env "u ''Delhi''" "[]" "[]" "[]" echo_summarizer
        "[Summarize (u ''No data selected.'')]" "u ''No data selected.''"] g p s
  have "summarizer_inputs (fst (app sample_env (u ''Delhi'') []))
          = replicate 6 (take 1024 (summary_input []))"
    and "info_panels (fst (app sample_env (u ''Delhi'') []))
       = map (\<lambda>l. l @ u ''No data selected.'') agent_labels"
    by blast+
  with g p s show ?thesis
    by (simp only: i simp_thms)
qed

theorem six_summaries_counterexample:
  "summarizer_inputs (fst (app mute_env (u ''Delhi'') [])) = [u ''No data selected.'']
   \<and> info_panels (fst (app mute_env (u ''Delhi'') [])) = []
   \<and> snd (app mute_env (u ''Delhi'') []) = Inl OtherError"
  by (simp add: run_defs env_defs agents_def langchain_summary_def call_summarizer_def
      summary_input_def u_simps)

end
